theory Spec2Isabelle
  imports Main "HOL-Library.Char_ord" "HOL-Library.Monad_Syntax"
begin

unbundle bit_operations_syntax

section \<open>Goesi: the response cache and the ESI client\<close>

text \<open>
  The development embeds the package \<^verbatim>\<open>goesi\<close>: the response cache of \<^verbatim>\<open>cache.go\<close>
  (\<^verbatim>\<open>Cache.get\<close>, \<^verbatim>\<open>Cache.set\<close>, \<^verbatim>\<open>getExpiration\<close>) and the client that owns such a
  cache (\<^verbatim>\<open>New\<close>, \<^verbatim>\<open>GetAuthorizeURL\<close>, \<^verbatim>\<open>Authenticate\<close>, \<^verbatim>\<open>WhoAmI\<close>, \<^verbatim>\<open>Get\<close>, \<^verbatim>\<open>Post\<close>,
  \<^verbatim>\<open>ClearCache\<close>), in the version of the client whose struct has the field \<^verbatim>\<open>cache\<close>.

  Go values are modelled as follows.
  \<^item> A Go \<^verbatim>\<open>string\<close> is a \<^typ>\<open>string\<close>, one \<^typ>\<open>char\<close> per byte.
  \<^item> A Go \<^verbatim>\<open>error\<close> is a value of the datatype \<open>error\<close>; a function returning
    \<^verbatim>\<open>(T, error)\<close> returns \<open>error + T\<close>, with \<open>Inl\<close> for a non-nil error.
  \<^item> A \<^verbatim>\<open>*gabs.Container\<close> is a \<^typ>\<open>'doc option\<close>, \<open>None\<close> being the nil pointer.
  \<^item> A \<^verbatim>\<open>time.Time\<close> is the instant it denotes: seconds and nanoseconds since the Unix
    epoch. Its location, which only matters for printing, is left out.
  \<^item> The map behind a \<^verbatim>\<open>Cache\<close> is a partial function from URLs to entries; the methods
    that mutate it return the new map.
  \<^item> Calls of the logger change neither state nor results and are left out.
\<close>

subsection \<open>Errors and instants\<close>

datatype error =
    ParseError string string  \<comment> \<open>\<^verbatim>\<open>*time.ParseError\<close>: its fields Layout and Value\<close>
  | Errorf string             \<comment> \<open>an error made by \<^verbatim>\<open>fmt.Errorf\<close>, with its message\<close>
  | LibError string           \<comment> \<open>an error returned by net/http, io, gabs or encoding/json\<close>

record Time =
  unixSec :: int
  unixNsec :: int

text \<open>\<^verbatim>\<open>t.Before(u)\<close> for two instants without monotonic clock reading.\<close>

definition Before :: "Time \<Rightarrow> Time \<Rightarrow> bool" where
  "Before t u = (unixSec t < unixSec u \<or> unixSec t = unixSec u \<and> unixNsec t < unixNsec u)"

subsection \<open>The standard library's \<^verbatim>\<open>time.Parse\<close>, for the layout of \<^verbatim>\<open>getExpiration\<close>\<close>

text \<open>
  \<^verbatim>\<open>getExpiration\<close> calls \<^verbatim>\<open>time.Parse\<close> with one constant layout. The functions below
  follow the helpers of the Go standard library (package time, \<^verbatim>\<open>format.go\<close>) that this
  layout reaches: the layout splits into the chunks
  \<^verbatim>\<open>Mon\<close> \<^verbatim>\<open>", " 02\<close> \<^verbatim>\<open>" " Jan\<close> \<^verbatim>\<open>" " 2006\<close> \<^verbatim>\<open>" " 15\<close> \<^verbatim>\<open>":" 04\<close> \<^verbatim>\<open>":" 05\<close> \<^verbatim>\<open>" " MST\<close>,
  each a literal prefix to skip and a field to read.
\<close>

definition parseFormat :: string where
  "parseFormat = ''Mon, 02 Jan 2006 15:04:05 MST''"

definition isDigit :: "string \<Rightarrow> nat \<Rightarrow> bool" where
  "isDigit s i = (i < length s \<and> CHR ''0'' \<le> s ! i \<and> s ! i \<le> CHR ''9'')"

definition digit :: "char \<Rightarrow> int" where
  "digit c = of_char c - 48"

text \<open>\<^verbatim>\<open>getnum\<close>: a one- or two-digit number; two digits are required when \<open>fixed\<close>.\<close>

definition getnum :: "string \<Rightarrow> bool \<Rightarrow> (int \<times> string) option" where
  "getnum s fixed =
     (if \<not> isDigit s 0 then None
      else if \<not> isDigit s 1 then (if fixed then None else Some (digit (s ! 0), drop 1 s))
      else Some (digit (s ! 0) * 10 + digit (s ! 1), drop 2 s))"

definition cutspace :: "string \<Rightarrow> string" where
  "cutspace s = dropWhile (\<lambda>c. c = CHR '' '') s"

text \<open>
  \<^verbatim>\<open>skip\<close>: the value must start with the literal prefix; a space of the prefix stands for
  any run of spaces of the value, also an empty one at the end of the value.
\<close>

function skip :: "string \<Rightarrow> string \<Rightarrow> string option" where
  "skip val [] = Some val"
| "skip val (p # prefix) =
     (if p = CHR '' '' then
        (if val \<noteq> [] \<and> hd val \<noteq> CHR '' '' then None
         else skip (cutspace val) (cutspace prefix))
      else if val = [] \<or> hd val \<noteq> p then None
      else skip (tl val) prefix)"
  by pat_completeness auto
termination
  by (relation "measure (\<lambda>(v, p). length p)")
     (auto simp: cutspace_def intro: le_imp_less_Suc length_dropWhile_le)

text \<open>\<^verbatim>\<open>match\<close>: equality of two strings of one length, letters compared without case.\<close>

definition matchChar :: "char \<Rightarrow> char \<Rightarrow> bool" where
  "matchChar c1 c2 =
     (c1 = c2 \<or>
      ((of_char c1 :: nat) OR 32) = ((of_char c2 :: nat) OR 32) \<and>
      97 \<le> ((of_char c1 :: nat) OR 32) \<and> ((of_char c1 :: nat) OR 32) \<le> 122)"

definition match :: "string \<Rightarrow> string \<Rightarrow> bool" where
  "match s1 s2 = list_all (\<lambda>(c1, c2). matchChar c1 c2) (zip s1 s2)"

text \<open>\<^verbatim>\<open>lookup\<close>: the index of the first table entry that the value starts with.\<close>

fun lookup :: "string list \<Rightarrow> nat \<Rightarrow> string \<Rightarrow> (nat \<times> string) option" where
  "lookup [] i val = None"
| "lookup (v # tab) i val =
     (if length v \<le> length val \<and> match (take (length v) val) v
      then Some (i, drop (length v) val)
      else lookup tab (Suc i) val)"

definition shortDayNames :: "string list" where
  "shortDayNames = [''Sun'', ''Mon'', ''Tue'', ''Wed'', ''Thu'', ''Fri'', ''Sat'']"

definition shortMonthNames :: "string list" where
  "shortMonthNames = [''Jan'', ''Feb'', ''Mar'', ''Apr'', ''May'', ''Jun'',
                      ''Jul'', ''Aug'', ''Sep'', ''Oct'', ''Nov'', ''Dec'']"

text \<open>The value of a string of decimal digits.\<close>

definition digits :: "string \<Rightarrow> int" where
  "digits s = foldl (\<lambda>x c. x * 10 + digit c) 0 s"

text \<open>
  \<^verbatim>\<open>leadingInt\<close>: the leading digits of a string as a 64-bit unsigned number and the
  rest; \<open>None\<close> on overflow beyond \<open>2 ^ 63\<close>.
\<close>

fun leadingInt_from :: "int \<Rightarrow> string \<Rightarrow> (int \<times> string) option" where
  "leadingInt_from x [] = Some (x, [])"
| "leadingInt_from x (c # s) =
     (if c < CHR ''0'' \<or> CHR ''9'' < c then Some (x, c # s)
      else if x > 2 ^ 63 div 10 then None
      else if x * 10 + digit c > 2 ^ 63 then None
      else leadingInt_from (x * 10 + digit c) s)"

definition leadingInt :: "string \<Rightarrow> (int \<times> string) option" where
  "leadingInt s = leadingInt_from 0 s"

text \<open>
  \<^verbatim>\<open>parseSignedOffset\<close>: the length of a leading signed hour offset of at most 23, or 0.
  The value is not empty where it is called.
\<close>

definition parseSignedOffset :: "string \<Rightarrow> nat" where
  "parseSignedOffset val =
     (if hd val \<noteq> CHR ''-'' \<and> hd val \<noteq> CHR ''+'' then 0
      else case leadingInt (tl val) of
             None \<Rightarrow> 0
           | Some (x, rem) \<Rightarrow>
               if tl val = rem then 0
               else if x > 23 then 0
               else length val - length rem)"

definition parseGMT :: "string \<Rightarrow> nat" where
  "parseGMT val = (if drop 3 val = [] then 3 else 3 + parseSignedOffset (drop 3 val))"

text \<open>The number of leading upper-case letters, counted up to six.\<close>

definition nUpper :: "string \<Rightarrow> nat" where
  "nUpper val = length (takeWhile (\<lambda>c. CHR ''A'' \<le> c \<and> c \<le> CHR ''Z'') (take 6 val))"

text \<open>\<^verbatim>\<open>parseTimeZone\<close>: the length of the zone abbreviation the value starts with.\<close>

definition parseTimeZone :: "string \<Rightarrow> nat option" where
  "parseTimeZone val =
     (if length val < 3 then None
      else if 4 \<le> length val \<and> (take 4 val = ''ChST'' \<or> take 4 val = ''MeST'') then Some 4
      else if take 3 val = ''GMT'' then Some (parseGMT val)
      else if hd val = CHR ''+'' \<or> hd val = CHR ''-'' then
        (if parseSignedOffset val > 0 then Some (parseSignedOffset val) else None)
      else if nUpper val = 5 then (if val ! 4 = CHR ''T'' then Some 5 else None)
      else if nUpper val = 4 then
        (if val ! 3 = CHR ''T'' \<or> take 4 val = ''WITA'' then Some 4 else None)
      else if nUpper val = 3 then Some 3
      else None)"

text \<open>
  \<^verbatim>\<open>parseNanoseconds\<close> on a fraction \<open>.ddd\<close> of \<open>nbytes\<close> bytes: at most nine digits
  count, scaled to nanoseconds.
\<close>

definition parseNanoseconds :: "string \<Rightarrow> nat \<Rightarrow> int" where
  "parseNanoseconds val nbytes =
     (let n = min nbytes 10 in digits (take (n - 1) (drop 1 val)) * 10 ^ (10 - n))"

definition isLeap :: "int \<Rightarrow> bool" where
  "isLeap year = (year mod 4 = 0 \<and> (year mod 100 \<noteq> 0 \<or> year mod 400 = 0))"

definition daysBefore :: "int list" where
  "daysBefore = [0, 31, 59, 90, 120, 151, 181, 212, 243, 273, 304, 334, 365]"

definition daysIn :: "nat \<Rightarrow> int \<Rightarrow> int" where
  "daysIn m year =
     (if m = 2 \<and> isLeap year then 29 else daysBefore ! m - daysBefore ! (m - 1))"

text \<open>
  \<^verbatim>\<open>time.Date(year, month, day, hour, min, sec, nsec, time.UTC)\<close> for a month in 1..12 and
  fields in range, as the parser has checked: the days from 1 January of year 1 to the
  date, moved to the Unix epoch (719162 days later).
\<close>

definition Date :: "int \<Rightarrow> nat \<Rightarrow> int \<Rightarrow> int \<Rightarrow> int \<Rightarrow> int \<Rightarrow> int \<Rightarrow> Time" where
  "Date year m day hour mi sec nsec =
     (let y = year - 1;
          d = 365 * y + y div 4 - y div 100 + y div 400
              + daysBefore ! (m - 1) + (if isLeap year \<and> 3 \<le> m then 1 else 0)
              + (day - 1) - 719162
      in \<lparr>unixSec = d * 86400 + hour * 3600 + mi * 60 + sec, unixNsec = nsec\<rparr>)"

text \<open>\<^verbatim>\<open>stdLongYear\<close>: exactly four digits.\<close>

definition longYear :: "string \<Rightarrow> (int \<times> string) option" where
  "longYear val =
     (if length val < 4 \<or> \<not> isDigit val 0 then None
      else case leadingInt (take 4 val) of
             Some (x, []) \<Rightarrow> Some (x, drop 4 val)
           | _ \<Rightarrow> None)"

text \<open>
  The fraction that may follow the seconds although the layout has none: a period or a
  comma and at least one digit. The result is the nanoseconds and the rest of the value.
\<close>

definition commaOrPeriod :: "char \<Rightarrow> bool" where
  "commaOrPeriod c = (c = CHR ''.'' \<or> c = CHR '','')"

definition fraction :: "string \<Rightarrow> int \<times> string" where
  "fraction val =
     (if 2 \<le> length val \<and> commaOrPeriod (val ! 0) \<and> isDigit val 1 then
        (let n = 2 + length (takeWhile (\<lambda>c. CHR ''0'' \<le> c \<and> c \<le> CHR ''9'') (drop 2 val))
         in (parseNanoseconds val n, drop n val))
      else (0, val))"

text \<open>
  \<^verbatim>\<open>stdTZ\<close>: the literal \<^verbatim>\<open>UTC\<close> (no zone name is kept, the location is UTC), or an
  abbreviation accepted by \<open>parseTimeZone\<close>, kept as the zone name.
\<close>

definition zone :: "string \<Rightarrow> (string \<times> string) option" where
  "zone val =
     (if 3 \<le> length val \<and> take 3 val = ''UTC'' then Some ([], drop 3 val)
      else case parseTimeZone val of
             None \<Rightarrow> None
           | Some n \<Rightarrow> Some (take n val, drop n val))"

definition inRange :: "bool \<Rightarrow> unit option" where
  "inRange b = (if b then Some () else None)"

text \<open>
  The loop of \<^verbatim>\<open>parse\<close> over the chunks of the layout, then the check of the day against
  the month. The result is the fields read; \<open>None\<close> stands for every return of a
  \<^verbatim>\<open>ParseError\<close>. The day of the week is only checked to be a day name.
\<close>

definition parseFields ::
  "string \<Rightarrow> (int \<times> nat \<times> int \<times> int \<times> int \<times> int \<times> int \<times> string) option" where
  "parseFields val = do {
     (wd, v) \<leftarrow> lookup shortDayNames 0 val;
     v \<leftarrow> skip v '', '';
     (day, v) \<leftarrow> getnum v True;
     v \<leftarrow> skip v '' '';
     (mo, v) \<leftarrow> lookup shortMonthNames 0 v;
     v \<leftarrow> skip v '' '';
     (year, v) \<leftarrow> longYear v;
     v \<leftarrow> skip v '' '';
     (hour, v) \<leftarrow> getnum v False;
     _ \<leftarrow> inRange (hour < 24);
     v \<leftarrow> skip v '':'';
     (mi, v) \<leftarrow> getnum v True;
     _ \<leftarrow> inRange (mi < 60);
     v \<leftarrow> skip v '':'';
     (sec, v) \<leftarrow> getnum v True;
     _ \<leftarrow> inRange (sec < 60);
     (nsec, v) \<leftarrow> Some (fraction v);
     v \<leftarrow> skip v '' '';
     (zoneName, v) \<leftarrow> zone v;
     _ \<leftarrow> inRange (v = []);
     _ \<leftarrow> inRange (1 \<le> day \<and> day \<le> daysIn (Suc mo) year);
     Some (year, Suc mo, day, hour, mi, sec, nsec, zoneName)
   }"

text \<open>
  \<^verbatim>\<open>time.Parse(parseFormat, val)\<close>. The instant is the date and time read as UTC, unless
  the zone abbreviation is one of the host's local location: \<open>local\<close> is the method
  \<^verbatim>\<open>lookupName\<close> of \<^verbatim>\<open>time.Local\<close>, giving the offset in seconds of an abbreviation
  at an instant, and that offset is then subtracted. An abbreviation the local location
  does not have leaves the instant as read.
\<close>

definition time_Parse :: "(string \<Rightarrow> int \<Rightarrow> int option) \<Rightarrow> string \<Rightarrow> error + Time" where
  "time_Parse local val =
     (case parseFields val of
        None \<Rightarrow> Inl (ParseError parseFormat val)
      | Some (year, m, day, hour, mi, sec, nsec, zoneName) \<Rightarrow>
          (let t = Date year m day hour mi sec nsec in
           if zoneName = [] then Inr t
           else case local zoneName (unixSec t) of
                  Some offset \<Rightarrow> Inr (t\<lparr>unixSec := unixSec t - offset\<rparr>)
                | None \<Rightarrow> Inr t))"

subsection \<open>\<^verbatim>\<open>cache.go\<close>\<close>

text \<open>\<^verbatim>\<open>getExpiration\<close> parses the expiration time from the ESI response headers.\<close>

definition getExpiration :: "(string \<Rightarrow> int \<Rightarrow> int option) \<Rightarrow> string \<Rightarrow> error + Time" where
  "getExpiration local s =
     (case time_Parse local s of
        Inl err \<Rightarrow> Inl err
      | Inr t \<Rightarrow> Inr t)"

record 'doc CacheEntry =
  Data :: "'doc option"
  Expires :: Time

type_synonym 'doc Cache = "string \<rightharpoonup> 'doc CacheEntry"

text \<open>
  An \<^verbatim>\<open>http.Header\<close> maps a key to its values; \<^verbatim>\<open>Get\<close> gives the first value of a key or
  the empty string, \<^verbatim>\<open>Add\<close> appends a value. Every key the package uses is already in
  canonical form.
\<close>

type_synonym Header = "string \<rightharpoonup> string list"

definition Header_Get :: "Header \<Rightarrow> string \<Rightarrow> string" where
  "Header_Get h key = (case h key of None \<Rightarrow> [] | Some [] \<Rightarrow> [] | Some (v # vs) \<Rightarrow> v)"

definition Header_Add :: "Header \<Rightarrow> string \<Rightarrow> string \<Rightarrow> Header" where
  "Header_Add h key v = h(key \<mapsto> (case h key of None \<Rightarrow> [] | Some vs \<Rightarrow> vs) @ [v])"

text \<open>
  \<^verbatim>\<open>Cache.get\<close> returns an entry from the map (if it exists and is not expired). If the
  entry is present but expired, it is removed from the map. \<open>now\<close> is the value of
  \<^verbatim>\<open>time.Now().UTC()\<close>; the result is the pointer returned and the map afterwards.
\<close>

definition Cache_get :: "Time \<Rightarrow> 'doc Cache \<Rightarrow> string \<Rightarrow> 'doc option \<times> 'doc Cache" where
  "Cache_get now c u =
     (case c u of
        None \<Rightarrow> (None, c)
      | Some entry \<Rightarrow>
          if Before (Expires entry) now then (None, c(u := None))
          else (Data entry, c))"

text \<open>
  \<^verbatim>\<open>Cache.set\<close> puts the url and its data into the cache. The result is the error
  returned (\<open>None\<close> for nil) and the map afterwards.
\<close>

definition Cache_set ::
  "(string \<Rightarrow> int \<Rightarrow> int option) \<Rightarrow> 'doc Cache \<Rightarrow> string \<Rightarrow> 'doc option \<Rightarrow> Header
     \<Rightarrow> error option \<times> 'doc Cache" where
  "Cache_set local c u d h =
     (case getExpiration local (Header_Get h ''Expires'') of
        Inl err \<Rightarrow> (Some err, c)
      | Inr expires \<Rightarrow> (None, c(u \<mapsto> \<lparr>Data = d, Expires = expires\<rparr>)))"

subsection \<open>The client\<close>

record Request =
  Method :: string
  URL :: string
  req_Header :: Header
  req_Body :: "string option"

record 'body Response =
  StatusCode :: int
  resp_Header :: Header
  resp_Body :: 'body

record authenticateResponse =
  access_token :: string
  token_type :: string
  expires_in :: int
  refresh_token :: string

text \<open>
  What the package takes from outside itself: the host's local time zone, the standard
  library and gabs, and the HTTP client with the network behind it. The answer of the
  network to a request may depend on the requests sent before, so \<open>client_Do\<close> takes
  them too. \<open>'body\<close> is the stream \<^verbatim>\<open>resp.Body\<close>, \<open>'arg\<close> an operand of
  \<^verbatim>\<open>fmt.Sprintf\<close>, \<open>'doc\<close> a \<^verbatim>\<open>gabs.Container\<close>.
\<close>

record ('doc, 'arg, 'body) Env =
  Local :: "string \<Rightarrow> int \<Rightarrow> int option"
    \<comment> \<open>\<^verbatim>\<open>time.Local\<close>: the offset of a zone abbreviation at an instant, if it has it\<close>
  Sprintf :: "string \<Rightarrow> 'arg list \<Rightarrow> string"
    \<comment> \<open>\<^verbatim>\<open>fmt.Sprintf\<close> on the template and operands of a caller\<close>
  NewRequest_err :: "string \<Rightarrow> string \<Rightarrow> error option"
    \<comment> \<open>the error with which \<^verbatim>\<open>http.NewRequest\<close> rejects a method and a URL, if it does\<close>
  client_Do :: "Request list \<Rightarrow> Request \<Rightarrow> error + 'body Response"
    \<comment> \<open>\<^verbatim>\<open>e.client.Do\<close>, after the requests already sent\<close>
  ReadAll :: "'body \<Rightarrow> error + string"
    \<comment> \<open>\<^verbatim>\<open>ioutil.ReadAll\<close>\<close>
  ParseJSONBuffer :: "'body \<Rightarrow> error + 'doc"
    \<comment> \<open>\<^verbatim>\<open>gabs.ParseJSONBuffer\<close>; the container of a success is never nil\<close>
  Unmarshal :: "string \<Rightarrow> error + authenticateResponse"
    \<comment> \<open>\<^verbatim>\<open>json.Unmarshal\<close> into a zero \<^verbatim>\<open>authenticateResponse\<close>\<close>
  QueryEscape :: "string \<Rightarrow> string"
    \<comment> \<open>\<^verbatim>\<open>url.QueryEscape\<close>, as \<^verbatim>\<open>url.Values.Encode\<close> applies it\<close>
  EncodeToString :: "string \<Rightarrow> string"
    \<comment> \<open>\<^verbatim>\<open>base64.StdEncoding.EncodeToString\<close>\<close>

text \<open>
  ESI is the interface for interacting with the EVE Swagger Interface. The field
  \<^verbatim>\<open>client\<close> is the HTTP client of the environment; the field \<^verbatim>\<open>cache\<close> points to a map
  that only this struct reaches, and holds the map here.
\<close>

record 'doc ESI =
  cache :: "'doc Cache"
  Version :: string
  ClientID :: string
  ClientSecret :: string
  ClientCallbackURL :: string
  UserAgent :: string
  Scope :: string
  AccessToken :: string
  RefreshToken :: string


definition TokenURL :: string where
  "TokenURL = ''https://login.eveonline.com/oauth/token''"

definition VerifyURL :: string where
  "VerifyURL = ''https://login.eveonline.com/oauth/verify''"

definition AuthorizeURL :: string where
  "AuthorizeURL = ''https://login.eveonline.com/oauth/authorize''"

text \<open>\<^verbatim>\<open>New\<close> creates a new instance of the ESI struct and returns it.\<close>

definition New :: "string \<Rightarrow> string \<Rightarrow> string \<Rightarrow> 'doc ESI" where
  "New clientID clientSecret clientCallbackURL =
     \<lparr>cache = Map.empty, Version = ''latest'', ClientID = clientID,
      ClientSecret = clientSecret, ClientCallbackURL = clientCallbackURL,
      UserAgent = ''github.com/Celeo/Goesi'', Scope = [], AccessToken = [],
      RefreshToken = []\<rparr>"

text \<open>
  \<^verbatim>\<open>GetAuthorizeURL\<close> returns the URL that a user must visit in order to authenticate
  with the SSO. The template of its \<^verbatim>\<open>fmt.Sprintf\<close> has the verb \<^verbatim>\<open>%s\<close> four times, on four
  strings, each of which is written as it is.
\<close>

definition GetAuthorizeURL :: "'doc ESI \<Rightarrow> error + string" where
  "GetAuthorizeURL e =
     (if ClientID e = [] \<or> ClientSecret e = [] \<or> ClientCallbackURL e = [] then
        Inl (Errorf ''Missing client data - cannot generate callback URL'')
      else
        Inr (AuthorizeURL @ ''?response_type=code&redirect_uri='' @ ClientCallbackURL e
             @ ''&client_id='' @ ClientID e @ ''&scope='' @ Scope e))"

text \<open>
  \<^verbatim>\<open>createAuthorizationHeader\<close> returns the header string required for getting an access
  token from SSO.
\<close>

definition createAuthorizationHeader :: "('doc, 'arg, 'body) Env \<Rightarrow> 'doc ESI \<Rightarrow> string" where
  "createAuthorizationHeader env e =
     ''Basic '' @ EncodeToString env (ClientID e @ '':'' @ ClientSecret e)"

text \<open>\<^verbatim>\<open>http.NewRequest\<close>: a request without headers, or the library's error.\<close>

definition NewRequest ::
  "('doc, 'arg, 'body) Env \<Rightarrow> string \<Rightarrow> string \<Rightarrow> string option \<Rightarrow> error + Request" where
  "NewRequest env method url body =
     (case NewRequest_err env method url of
        Some err \<Rightarrow> Inl err
      | None \<Rightarrow> Inr \<lparr>Method = method, URL = url, req_Header = Map.empty, req_Body = body\<rparr>)"

definition Header_add :: "Request \<Rightarrow> string \<Rightarrow> string \<Rightarrow> Request" where
  "Header_add req key v = req\<lparr>req_Header := Header_Add (req_Header req) key v\<rparr>"

text \<open>
  \<^verbatim>\<open>Authenticate\<close> takes a code from the SSO and fetches the access token. The form
  \<^verbatim>\<open>url.Values\<close> is encoded with its keys in order, \<^verbatim>\<open>code\<close> before \<^verbatim>\<open>grant_type\<close>. The result
  is the error returned (\<open>None\<close> for nil), the struct afterwards, and the requests sent.
\<close>

definition Authenticate ::
  "('doc, 'arg, 'body) Env \<Rightarrow> 'doc ESI \<Rightarrow> Request list \<Rightarrow> string
     \<Rightarrow> error option \<times> 'doc ESI \<times> Request list" where
  "Authenticate env e sent code =
     (case NewRequest env ''POST'' TokenURL
             (Some (''code='' @ QueryEscape env code @ ''&grant_type=authorization_code'')) of
        Inl err \<Rightarrow> (Some err, e, sent)
      | Inr req0 \<Rightarrow>
          (let req = Header_add (Header_add (Header_add (Header_add req0
                       ''Authorization'' (createAuthorizationHeader env e))
                       ''User-Agent'' (UserAgent e))
                       ''Accept'' ''application/json'')
                       ''Content-Type'' ''application/x-www-form-urlencoded''
           in case client_Do env sent req of
                Inl err \<Rightarrow> (Some err, e, sent @ [req])
              | Inr resp \<Rightarrow>
                  (case ReadAll env (resp_Body resp) of
                     Inl err \<Rightarrow> (Some err, e, sent @ [req])
                   | Inr body \<Rightarrow>
                       if body = [] \<or> StatusCode resp \<noteq> 200 then
                         (Some (Errorf ''Response body is empty''), e, sent @ [req])
                       else
                         (case Unmarshal env body of
                            Inl err \<Rightarrow> (Some err, e, sent @ [req])
                          | Inr respData \<Rightarrow>
                              (None,
                               e\<lparr>AccessToken := access_token respData,
                                 RefreshToken := refresh_token respData\<rparr>,
                               sent @ [req])))))"

text \<open>\<^verbatim>\<open>setupHeaders\<close> adds the standard headers to the request.\<close>

definition setupHeaders :: "'doc ESI \<Rightarrow> Request \<Rightarrow> Request" where
  "setupHeaders e req =
     (let req1 = Header_add (Header_add req ''User-Agent'' (UserAgent e))
                   ''Accept'' ''application/json''
      in if AccessToken e \<noteq> [] then Header_add req1 ''Authorization'' (''Bearer '' @ AccessToken e)
         else req1)"

text \<open>\<^verbatim>\<open>WhoAmI\<close> returns basic information about the access token's character.\<close>

definition WhoAmI ::
  "('doc, 'arg, 'body) Env \<Rightarrow> 'doc ESI \<Rightarrow> Request list \<Rightarrow> (error + 'doc) \<times> Request list" where
  "WhoAmI env e sent =
     (case NewRequest env ''GET'' VerifyURL None of
        Inl err \<Rightarrow> (Inl err, sent)
      | Inr req0 \<Rightarrow>
          (let req = setupHeaders e req0
           in case client_Do env sent req of
                Inl err \<Rightarrow> (Inl err, sent @ [req])
              | Inr resp \<Rightarrow>
                  (case ParseJSONBuffer env (resp_Body resp) of
                     Inl err \<Rightarrow> (Inl err, sent @ [req])
                   | Inr json \<Rightarrow> (Inr json, sent @ [req]))))"



text \<open>\<^verbatim>\<open>ClearCache\<close> creates a new cache, overriding the previous.\<close>

definition ClearCache :: "'doc ESI \<Rightarrow> 'doc ESI" where
  "ClearCache e = e\<lparr>cache := Map.empty\<rparr>"

subsection \<open>Sample values\<close>

text \<open>
  Values at which the theorems below are instantiated. \<open>utcLocal\<close> is the local location
  of a host that runs in UTC: that location has no zone abbreviation of its own.
\<close>

definition utcLocal :: "string \<Rightarrow> int \<Rightarrow> int option" where
  "utcLocal name unix = None"

definition noon :: Time where
  "noon = \<lparr>unixSec = 1510228800, unixNsec = 0\<rparr>"

definition warURL :: string where
  "warURL = ''https://esi.tech.ccp.is/latest/wars/10000/''"

definition warEntry :: "string CacheEntry" where
  "warEntry = \<lparr>Data = Some ''[1,2]'', Expires = noon\<rparr>"

definition expiresAt :: "string \<Rightarrow> Header" where
  "expiresAt v = [''Expires'' \<mapsto> [v]]"

definition evening :: Time where
  "evening = \<lparr>unixSec = 1510248434, unixNsec = 0\<rparr>"

text \<open>
  A sample environment: a host in UTC and a server that answers four URLs. Each function
  of the libraries is given at the arguments the examples reach: the template
  \<^verbatim>\<open>wars/%d\<close> with the operand 10000, the template \<^verbatim>\<open>%zz\<close> without operand (its
  result is no part of a URL), a template without verb and without operand, the
  base64 text of \<^verbatim>\<open>id:secret\<close>, an authorization code of letters (which
  \<^verbatim>\<open>url.QueryEscape\<close> leaves as it is). A document is written as its JSON text, the
  stream of a body as its bytes, and \<^verbatim>\<open><reset>\<close> is the stream whose reading fails. The
  token endpoint answers by the code it is given.
\<close>

definition statusURL :: string where
  "statusURL = ''https://esi.tech.ccp.is/latest/status/''"

definition brokenURL :: string where
  "brokenURL = ''https://esi.tech.ccp.is/latest/broken/''"

definition badURL :: string where
  "badURL = ''https://esi.tech.ccp.is/latest/%!z(MISSING)z/''"

definition tokenBody :: string where
  \<open>tokenBody = ''{"access_token":"at1","token_type":"Bearer","expires_in":1200,"refresh_token":"rt1"}''\<close>

definition tokens :: authenticateResponse where
  "tokens = \<lparr>access_token = ''at1'', token_type = ''Bearer'', expires_in = 1200,
             refresh_token = ''rt1''\<rparr>"

definition warResponse :: "string Response" where
  "warResponse = \<lparr>StatusCode = 200, resp_Header = expiresAt ''Thu, 09 Nov 2017 17:27:14 GMT'',
                  resp_Body = ''[1,2]''\<rparr>"

definition tokenResponse :: "string option \<Rightarrow> string Response" where
  "tokenResponse body =
     (if body = Some ''code=good&grant_type=authorization_code'' then
        \<lparr>StatusCode = 200, resp_Header = Map.empty, resp_Body = tokenBody\<rparr>
      else if body = Some ''code=silent&grant_type=authorization_code'' then
        \<lparr>StatusCode = 200, resp_Header = Map.empty, resp_Body = []\<rparr>
      else if body = Some ''code=garbled&grant_type=authorization_code'' then
        \<lparr>StatusCode = 200, resp_Header = Map.empty, resp_Body = ''<html>''\<rparr>
      else if body = Some ''code=reset&grant_type=authorization_code'' then
        \<lparr>StatusCode = 200, resp_Header = Map.empty, resp_Body = ''<reset>''\<rparr>
      else
        \<lparr>StatusCode = 400, resp_Header = Map.empty, resp_Body = ''invalid_request''\<rparr>)"

definition sampleDo :: "Request list \<Rightarrow> Request \<Rightarrow> error + string Response" where
  "sampleDo sent req =
     (if URL req = warURL then Inr warResponse
      else if URL req = statusURL then
        Inr \<lparr>StatusCode = 200, resp_Header = Map.empty, resp_Body = ''[5]''\<rparr>
      else if URL req = brokenURL then
        Inr \<lparr>StatusCode = 502, resp_Header = Map.empty, resp_Body = ''Bad Gateway''\<rparr>
      else if URL req = TokenURL then Inr (tokenResponse (req_Body req))
      else Inl (LibError ''no such host''))"

definition sampleEnv :: "(string, int, string) Env" where
  "sampleEnv =
     \<lparr>Local = utcLocal,
      Sprintf = (\<lambda>path args. if path = ''wars/%d'' \<and> args = [10000] then ''wars/10000''
                                else if path = ''%zz'' \<and> args = [] then ''%!z(MISSING)z''
                                else path),
      NewRequest_err = (\<lambda>method url. if url = badURL then Some (LibError ''invalid URL escape'')
                                       else None),
      client_Do = sampleDo,
      ReadAll = (\<lambda>body. if body = ''<reset>'' then Inl (LibError ''connection reset by peer'')
                          else Inr body),
      ParseJSONBuffer = (\<lambda>body. if take 1 body = ''['' then Inr body
                                  else Inl (LibError ''invalid character'')),
      Unmarshal = (\<lambda>body. if body = tokenBody then Inr tokens
                            else Inl (LibError ''invalid character'')),
      QueryEscape = (\<lambda>s. s),
      EncodeToString = (\<lambda>s. if s = ''id:secret'' then ''aWQ6c2VjcmV0'' else [])\<rparr>"

text \<open>The same host without a network.\<close>

definition offlineEnv :: "(string, int, string) Env" where
  "offlineEnv = sampleEnv\<lparr>client_Do := (\<lambda>sent req. Inl (LibError ''network is unreachable''))\<rparr>"

definition sampleESI :: "string ESI" where
  "sampleESI = New ''id'' ''secret'' ''https://example.org/callback''"


text \<open>The sample client with tokens of an earlier authentication.\<close>

definition authedESI :: "string ESI" where
  "authedESI = sampleESI\<lparr>AccessToken := ''old'', RefreshToken := ''older''\<rparr>"

definition tokenRequest :: "string \<Rightarrow> Request" where
  "tokenRequest code =
     Header_add (Header_add (Header_add (Header_add
       \<lparr>Method = ''POST'', URL = TokenURL, req_Header = Map.empty,
        req_Body = Some (''code='' @ code @ ''&grant_type=authorization_code'')\<rparr>
       ''Authorization'' ''Basic aWQ6c2VjcmV0'')
       ''User-Agent'' ''github.com/Celeo/Goesi'')
       ''Accept'' ''application/json'')
       ''Content-Type'' ''application/x-www-form-urlencoded''"



section \<open>The expiry parser\<close>

lemmas parse_defs =
  parseFields_def shortDayNames_def shortMonthNames_def match_def matchChar_def
  getnum_def isDigit_def digit_def longYear_def leadingInt_def inRange_def fraction_def
  commaOrPeriod_def zone_def parseTimeZone_def parseGMT_def parseSignedOffset_def
  nUpper_def daysIn_def daysBefore_def isLeap_def cutspace_def

lemma parseFields_evening:
  "parseFields ''Thu, 09 Nov 2017 17:27:14 GMT'' = Some (2017, 11, 9, 17, 27, 14, 0, ''GMT'')"
  by (simp add: parse_defs)

lemma Date_evening: "Date 2017 11 9 17 27 14 0 = evening"
  by (simp add: Date_def daysBefore_def isLeap_def evening_def)

lemma getExpiration_evening:
  "getExpiration utcLocal ''Thu, 09 Nov 2017 17:27:14 GMT'' = Inr evening"
  by (simp add: getExpiration_def time_Parse_def parseFields_evening Date_evening utcLocal_def)

lemma parseFields_empty: "parseFields [] = None"
  by (simp add: parse_defs)

lemma getExpiration_empty: "getExpiration local [] = Inl (ParseError parseFormat [])"
  by (simp add: getExpiration_def time_Parse_def parseFields_empty)






section \<open>The response cache\<close>

lemma Before_asym: "Before t u \<Longrightarrow> \<not> Before u t"
  by (auto simp: Before_def)

lemma Before_irrefl: "\<not> Before t t"
  by (simp add: Before_def)

text \<open>
  Claim C1, as the code has it. For every cache, url and current time: with no entry for
  the url, \<open>get\<close> returns nil and leaves the cache as it is; with an entry whose
  expiration is strictly before the current time, \<open>get\<close> removes that entry and returns
  nil; with an entry whose expiration is the current time or later, \<open>get\<close> returns the
  stored pointer and leaves the cache as it is. No other url is touched in any case.
\<close>

theorem Cache_get_cases:
  "(c u = None \<longrightarrow> Cache_get now c u = (None, c)) \<and>
   (c u = Some entry \<and> Before (Expires entry) now \<longrightarrow>
      Cache_get now c u = (None, c(u := None))) \<and>
   (c u = Some entry \<and> \<not> Before (Expires entry) now \<longrightarrow>
      Cache_get now c u = (Data entry, c)) \<and>
   (\<forall>u'. u' \<noteq> u \<longrightarrow> snd (Cache_get now c u) u' = c u')"
  by (simp add: Cache_get_def split: option.split)

theorem Cache_get_cases_witness:
  "Cache_get noon (Map.empty :: string Cache) warURL = (None, Map.empty) \<and>
   Cache_get (noon\<lparr>unixSec := unixSec noon + 1\<rparr>) [warURL \<mapsto> warEntry] warURL
     = (None, [warURL \<mapsto> warEntry](warURL := None)) \<and>
   Cache_get (noon\<lparr>unixSec := unixSec noon - 1\<rparr>) [warURL \<mapsto> warEntry] warURL
     = (Some ''[1,2]'', [warURL \<mapsto> warEntry]) \<and>
   snd (Cache_get (noon\<lparr>unixSec := unixSec noon + 1\<rparr>) [warURL \<mapsto> warEntry] warURL)
     ''other'' = [warURL \<mapsto> warEntry] ''other''"
proof -
  have ne: "''other'' \<noteq> warURL"
    by (simp add: warURL_def)
  have expired: "Before (Expires warEntry) (noon\<lparr>unixSec := unixSec noon + 1\<rparr>)"
    by (simp add: Before_def warEntry_def)
  have fresh: "\<not> Before (Expires warEntry) (noon\<lparr>unixSec := unixSec noon - 1\<rparr>)"
    by (simp add: Before_def warEntry_def)
  have doc: "Data warEntry = Some ''[1,2]''"
    by (simp add: warEntry_def)
  show ?thesis
    using Cache_get_cases [of "Map.empty :: string Cache" warURL noon]
          Cache_get_cases [of "[warURL \<mapsto> warEntry]" warURL
                              "noon\<lparr>unixSec := unixSec noon + 1\<rparr>" warEntry]
          Cache_get_cases [of "[warURL \<mapsto> warEntry]" warURL
                              "noon\<lparr>unixSec := unixSec noon - 1\<rparr>" warEntry]
          ne expired fresh doc
    by simp
qed

text \<open>
  Claim C1 as it is written fails where the expiration is exactly the current time: the
  claim has the entry removed and nil returned, the code returns the stored document and
  keeps the entry.
\<close>

theorem Cache_get_at_expiry_counterexample:
  "Expires warEntry = noon \<and>
   fst (Cache_get noon [warURL \<mapsto> warEntry] warURL) = Some ''[1,2]'' \<and>
   snd (Cache_get noon [warURL \<mapsto> warEntry] warURL) warURL = Some warEntry"
  by (simp add: Cache_get_def Before_def warEntry_def)

text \<open>
  Claim C4. For every cache, \<open>set\<close> parses the value of the header \<^verbatim>\<open>Expires\<close> with
  \<open>getExpiration\<close>. When that fails, \<open>set\<close> returns the error and the cache is as it
  was. When it succeeds, \<open>set\<close> returns nil and the entry of the url is the document with
  the parsed expiry, whatever was there before; after two such calls on one url the
  entry is that of the second call.
\<close>

theorem Cache_set_cases:
  "(getExpiration local (Header_Get h ''Expires'') = Inl err \<longrightarrow>
      Cache_set local c u d h = (Some err, c)) \<and>
   (getExpiration local (Header_Get h ''Expires'') = Inr t \<longrightarrow>
      Cache_set local c u d h = (None, c(u \<mapsto> \<lparr>Data = d, Expires = t\<rparr>))) \<and>
   (getExpiration local (Header_Get h ''Expires'') = Inr t \<and>
    getExpiration local (Header_Get h' ''Expires'') = Inr t' \<longrightarrow>
      Cache_set local (snd (Cache_set local c u d h)) u d' h'
        = (None, c(u \<mapsto> \<lparr>Data = d', Expires = t'\<rparr>)))"
  by (simp add: Cache_set_def)

theorem Cache_set_cases_witness:
  "Cache_set utcLocal [warURL \<mapsto> warEntry] warURL (Some ''[3]'') Map.empty
     = (Some (ParseError parseFormat []), [warURL \<mapsto> warEntry]) \<and>
   Cache_set utcLocal [warURL \<mapsto> warEntry] warURL (Some ''[3]'')
       (expiresAt ''Thu, 09 Nov 2017 17:27:14 GMT'')
     = (None, [warURL \<mapsto> \<lparr>Data = Some ''[3]'', Expires = evening\<rparr>]) \<and>
   Cache_set utcLocal
       (snd (Cache_set utcLocal Map.empty warURL (Some ''[3]'')
               (expiresAt ''Thu, 09 Nov 2017 17:27:14 GMT'')))
       warURL (Some ''[4]'') (expiresAt ''Thu, 09 Nov 2017 17:27:14 GMT'')
     = (None, [warURL \<mapsto> \<lparr>Data = Some ''[4]'', Expires = evening\<rparr>])"
proof -
  have fails: "getExpiration utcLocal (Header_Get Map.empty ''Expires'')
                 = Inl (ParseError parseFormat [])"
    by (simp add: Header_Get_def getExpiration_empty)
  have parsed: "getExpiration utcLocal
                  (Header_Get (expiresAt ''Thu, 09 Nov 2017 17:27:14 GMT'') ''Expires'')
                  = Inr evening"
    by (simp add: Header_Get_def expiresAt_def getExpiration_evening)
  have one: "Cache_set utcLocal [warURL \<mapsto> warEntry] warURL (Some ''[3]'') Map.empty
               = (Some (ParseError parseFormat []), [warURL \<mapsto> warEntry])"
    using Cache_set_cases [of utcLocal Map.empty "ParseError parseFormat []"
                              "[warURL \<mapsto> warEntry]" warURL "Some ''[3]''"] fails
    by blast
  have two: "Cache_set utcLocal [warURL \<mapsto> warEntry] warURL (Some ''[3]'')
                 (expiresAt ''Thu, 09 Nov 2017 17:27:14 GMT'')
               = (None, [warURL \<mapsto> warEntry, warURL \<mapsto> \<lparr>Data = Some ''[3]'', Expires = evening\<rparr>])"
    using Cache_set_cases [of utcLocal "expiresAt ''Thu, 09 Nov 2017 17:27:14 GMT''" _
                              "[warURL \<mapsto> warEntry]" warURL "Some ''[3]''" evening] parsed
    by blast
  have three: "Cache_set utcLocal
                 (snd (Cache_set utcLocal Map.empty warURL (Some ''[3]'')
                         (expiresAt ''Thu, 09 Nov 2017 17:27:14 GMT'')))
                 warURL (Some ''[4]'') (expiresAt ''Thu, 09 Nov 2017 17:27:14 GMT'')
               = (None, [warURL \<mapsto> \<lparr>Data = Some ''[4]'', Expires = evening\<rparr>])"
    using Cache_set_cases [of utcLocal "expiresAt ''Thu, 09 Nov 2017 17:27:14 GMT''" _
                              "Map.empty :: string Cache" warURL "Some ''[3]''" evening
                              "expiresAt ''Thu, 09 Nov 2017 17:27:14 GMT''" evening
                              "Some ''[4]''"] parsed
    by blast
  show ?thesis
    using one two three by simp
qed

text \<open>
  Claim C6. For every url, document and header whose value of \<^verbatim>\<open>Expires\<close> parses to an
  instant strictly after the current time, \<open>set\<close> followed by \<open>get\<close> on that url returns
  the pointer that was stored, and \<open>get\<close> leaves the cache as \<open>set\<close> made it.
\<close>

theorem Cache_set_get_roundtrip:
  assumes "getExpiration local (Header_Get h ''Expires'') = Inr t"
      and "Before now t"
  shows "Cache_get now (snd (Cache_set local c u d h)) u
           = (d, snd (Cache_set local c u d h))"
  using assms by (simp add: Cache_set_def Cache_get_def Before_asym)

theorem Cache_set_get_roundtrip_witness:
  "Before noon evening \<and>
   Cache_get noon
     (snd (Cache_set utcLocal Map.empty warURL (Some ''[1,2]'')
             (expiresAt ''Thu, 09 Nov 2017 17:27:14 GMT''))) warURL
     = (Some ''[1,2]'',
        snd (Cache_set utcLocal Map.empty warURL (Some ''[1,2]'')
               (expiresAt ''Thu, 09 Nov 2017 17:27:14 GMT'')))"
proof -
  have parsed: "getExpiration utcLocal
                  (Header_Get (expiresAt ''Thu, 09 Nov 2017 17:27:14 GMT'') ''Expires'')
                  = Inr evening"
    by (simp add: Header_Get_def expiresAt_def getExpiration_evening)
  have later: "Before noon evening"
    by (simp add: Before_def noon_def evening_def)
  show ?thesis
    using Cache_set_get_roundtrip [OF parsed later] later by simp
qed

section \<open>The client\<close>

subsection \<open>What the operations compute\<close>








lemma Authenticate_request:
  assumes "NewRequest_err env ''POST'' TokenURL = None"
      and "req = Header_add (Header_add (Header_add (Header_add
                   \<lparr>Method = ''POST'', URL = TokenURL, req_Header = Map.empty,
                    req_Body = Some (''code='' @ QueryEscape env code
                                     @ ''&grant_type=authorization_code'')\<rparr>
                   ''Authorization'' (createAuthorizationHeader env e))
                   ''User-Agent'' (UserAgent e))
                   ''Accept'' ''application/json'')
                   ''Content-Type'' ''application/x-www-form-urlencoded''"
  shows "Authenticate env e sent code =
     (case client_Do env sent req of
        Inl err \<Rightarrow> (Some err, e, sent @ [req])
      | Inr resp \<Rightarrow>
          (case ReadAll env (resp_Body resp) of
             Inl err \<Rightarrow> (Some err, e, sent @ [req])
           | Inr body \<Rightarrow>
               if body = [] \<or> StatusCode resp \<noteq> 200 then
                 (Some (Errorf ''Response body is empty''), e, sent @ [req])
               else
                 (case Unmarshal env body of
                    Inl err \<Rightarrow> (Some err, e, sent @ [req])
                  | Inr respData \<Rightarrow>
                      (None,
                       e\<lparr>AccessToken := access_token respData,
                         RefreshToken := refresh_token respData\<rparr>,
                       sent @ [req]))))"
  using assms(1) unfolding assms(2)
  by (simp add: Authenticate_def NewRequest_def Let_def split: sum.split)

subsection \<open>The sample environment\<close>

lemma sampleEnv_fields:
  "Local sampleEnv = utcLocal"
  "client_Do sampleEnv = sampleDo"
  "ReadAll sampleEnv body =
     (if body = ''<reset>'' then Inl (LibError ''connection reset by peer'') else Inr body)"
  "Unmarshal sampleEnv body =
     (if body = tokenBody then Inr tokens else Inl (LibError ''invalid character''))"
  "EncodeToString sampleEnv ''id:secret'' = ''aWQ6c2VjcmV0''"
  "QueryEscape sampleEnv s = s"
  by (simp_all add: sampleEnv_def)

lemma offlineEnv_fields:
  "NewRequest_err offlineEnv = NewRequest_err sampleEnv"
  "QueryEscape offlineEnv = QueryEscape sampleEnv"
  "EncodeToString offlineEnv = EncodeToString sampleEnv"
  "client_Do offlineEnv sent req = Inl (LibError ''network is unreachable'')"
  by (simp_all add: offlineEnv_def)

lemma sampleESI_fields:
  "ClientID sampleESI = ''id''" "ClientSecret sampleESI = ''secret''"
  "UserAgent sampleESI = ''github.com/Celeo/Goesi''" "Version sampleESI = ''latest''"
  "cache sampleESI = Map.empty" "AccessToken sampleESI = []" "RefreshToken sampleESI = []"
  by (simp_all add: sampleESI_def New_def)

lemma sample_requests:
  "NewRequest_err sampleEnv method warURL = None"
  "NewRequest_err sampleEnv method statusURL = None"
  "NewRequest_err sampleEnv method brokenURL = None"
  "NewRequest_err sampleEnv method badURL = Some (LibError ''invalid URL escape'')"
  "NewRequest_err sampleEnv method TokenURL = None"
  by (simp_all add: sampleEnv_def warURL_def statusURL_def brokenURL_def badURL_def TokenURL_def)




lemma sampleDo_token:
  "sampleDo sent (tokenRequest code)
     = Inr (tokenResponse (Some (''code='' @ code @ ''&grant_type=authorization_code'')))"
  by (simp add: sampleDo_def tokenRequest_def Header_add_def TokenURL_def warURL_def
        statusURL_def brokenURL_def)



lemma sample_tokenRequest:
  assumes "ClientID e = ''id''" "ClientSecret e = ''secret''"
          "UserAgent e = ''github.com/Celeo/Goesi''"
          "QueryEscape env code = code" "EncodeToString env ''id:secret'' = ''aWQ6c2VjcmV0''"
  shows "tokenRequest code =
           Header_add (Header_add (Header_add (Header_add
             \<lparr>Method = ''POST'', URL = TokenURL, req_Header = Map.empty,
              req_Body = Some (''code='' @ QueryEscape env code
                               @ ''&grant_type=authorization_code'')\<rparr>
             ''Authorization'' (createAuthorizationHeader env e))
             ''User-Agent'' (UserAgent e))
             ''Accept'' ''application/json'')
             ''Content-Type'' ''application/x-www-form-urlencoded''"
  using assms by (simp add: tokenRequest_def createAuthorizationHeader_def)

lemma sample_Authenticate:
  assumes "ClientID e = ''id''" "ClientSecret e = ''secret''"
          "UserAgent e = ''github.com/Celeo/Goesi''"
  shows "Authenticate sampleEnv e sent code =
     (case ReadAll sampleEnv (resp_Body (tokenResponse (req_Body (tokenRequest code)))) of
        Inl err \<Rightarrow> (Some err, e, sent @ [tokenRequest code])
      | Inr body \<Rightarrow>
          if body = [] \<or> StatusCode (tokenResponse (req_Body (tokenRequest code))) \<noteq> 200 then
            (Some (Errorf ''Response body is empty''), e, sent @ [tokenRequest code])
          else
            (case Unmarshal sampleEnv body of
               Inl err \<Rightarrow> (Some err, e, sent @ [tokenRequest code])
             | Inr respData \<Rightarrow>
                 (None,
                  e\<lparr>AccessToken := access_token respData,
                    RefreshToken := refresh_token respData\<rparr>,
                  sent @ [tokenRequest code])))"
proof -
  have req: "tokenRequest code =
           Header_add (Header_add (Header_add (Header_add
             \<lparr>Method = ''POST'', URL = TokenURL, req_Header = Map.empty,
              req_Body = Some (''code='' @ QueryEscape sampleEnv code
                               @ ''&grant_type=authorization_code'')\<rparr>
             ''Authorization'' (createAuthorizationHeader sampleEnv e))
             ''User-Agent'' (UserAgent e))
             ''Accept'' ''application/json'')
             ''Content-Type'' ''application/x-www-form-urlencoded''"
    using assms by (intro sample_tokenRequest) (simp_all add: sampleEnv_fields)
  have body: "req_Body (tokenRequest code)
                = Some (''code='' @ code @ ''&grant_type=authorization_code'')"
    by (simp add: tokenRequest_def Header_add_def)
  show ?thesis
    by (simp add: Authenticate_request [OF sample_requests(5) req] sampleEnv_fields(2)
          sampleDo_token body split: sum.split)
qed

lemma sample_Authenticate_fails:
  "fst (Authenticate sampleEnv authedESI [] ''silent'') = Some (Errorf ''Response body is empty'')"
  "fst (Authenticate sampleEnv authedESI [] ''denied'') = Some (Errorf ''Response body is empty'')"
  "fst (Authenticate sampleEnv authedESI [] ''garbled'') = Some (LibError ''invalid character'')"
  "fst (Authenticate sampleEnv authedESI [] ''reset'')
     = Some (LibError ''connection reset by peer'')"
  by (simp_all add: sample_Authenticate authedESI_def sampleESI_fields tokenRequest_def
        Header_add_def tokenResponse_def sampleEnv_fields tokenBody_def)

lemma offline_Authenticate_fails:
  "fst (Authenticate offlineEnv authedESI [] ''good'') = Some (LibError ''network is unreachable'')"
  by (simp add: Authenticate_def NewRequest_def offlineEnv_fields sample_requests Let_def)


subsection \<open>The cached \<^verbatim>\<open>Get\<close>\<close>





subsection \<open>\<^verbatim>\<open>Post\<close>\<close>



subsection \<open>Authentication\<close>

text \<open>
  Claim C8. \<open>GetAuthorizeURL\<close> returns its error whenever the client id, the client
  secret or the callback URL is the empty string. When none is empty it returns the
  authorize endpoint followed by the parameters \<^verbatim>\<open>response_type=code\<close>, \<^verbatim>\<open>redirect_uri\<close>,
  \<^verbatim>\<open>client_id\<close> and \<^verbatim>\<open>scope\<close> in this order, each value written as it is given.
\<close>

theorem GetAuthorizeURL_cases:
  "(ClientID e = [] \<or> ClientSecret e = [] \<or> ClientCallbackURL e = [] \<longrightarrow>
      GetAuthorizeURL e = Inl (Errorf ''Missing client data - cannot generate callback URL'')) \<and>
   (ClientID e \<noteq> [] \<and> ClientSecret e \<noteq> [] \<and> ClientCallbackURL e \<noteq> [] \<longrightarrow>
      GetAuthorizeURL e
        = Inr (''https://login.eveonline.com/oauth/authorize'' @
               ''?response_type=code'' @
               ''&redirect_uri='' @ ClientCallbackURL e @
               ''&client_id='' @ ClientID e @
               ''&scope='' @ Scope e))"
  by (simp add: GetAuthorizeURL_def AuthorizeURL_def)

theorem GetAuthorizeURL_cases_witness:
  "GetAuthorizeURL (New [] ''secret'' ''https://example.org/callback'' :: string ESI)
     = Inl (Errorf ''Missing client data - cannot generate callback URL'') \<and>
   GetAuthorizeURL (New ''id'' [] ''https://example.org/callback'' :: string ESI)
     = Inl (Errorf ''Missing client data - cannot generate callback URL'') \<and>
   GetAuthorizeURL (New ''id'' ''secret'' [] :: string ESI)
     = Inl (Errorf ''Missing client data - cannot generate callback URL'') \<and>
   GetAuthorizeURL (sampleESI\<lparr>Scope := ''esi-wallet.read a&b''\<rparr>)
     = Inr ''https://login.eveonline.com/oauth/authorize?response_type=code&redirect_uri=https://example.org/callback&client_id=id&scope=esi-wallet.read a&b''"
  using GetAuthorizeURL_cases [of "New [] ''secret'' ''https://example.org/callback'' :: string ESI"]
        GetAuthorizeURL_cases [of "New ''id'' [] ''https://example.org/callback'' :: string ESI"]
        GetAuthorizeURL_cases [of "New ''id'' ''secret'' [] :: string ESI"]
        GetAuthorizeURL_cases [of "sampleESI\<lparr>Scope := ''esi-wallet.read a&b''\<rparr>"]
  by (simp add: New_def sampleESI_def)

text \<open>
  Claim C9. Where \<^verbatim>\<open>http.NewRequest\<close> takes the constant method and token endpoint,
  \<open>Authenticate\<close> returns an error exactly when the transport fails (the client returns
  an error or the body of the response cannot be read), the body is empty, the status is
  not 200, or the body does not parse into an \<^verbatim>\<open>authenticateResponse\<close>. In the other case
  it returns nil, and the struct is as before except that its access token and refresh
  token are those of the response.
\<close>

theorem Authenticate_fails_iff:
  assumes "NewRequest_err env ''POST'' TokenURL = None"
      and "req = Header_add (Header_add (Header_add (Header_add
                   \<lparr>Method = ''POST'', URL = TokenURL, req_Header = Map.empty,
                    req_Body = Some (''code='' @ QueryEscape env code
                                     @ ''&grant_type=authorization_code'')\<rparr>
                   ''Authorization'' (createAuthorizationHeader env e))
                   ''User-Agent'' (UserAgent e))
                   ''Accept'' ''application/json'')
                   ''Content-Type'' ''application/x-www-form-urlencoded''"
  shows
   "(fst (Authenticate env e sent code) \<noteq> None \<longleftrightarrow>
       (\<exists>err. client_Do env sent req = Inl err) \<or>
       (\<exists>resp. client_Do env sent req = Inr resp \<and>
          ((\<exists>err. ReadAll env (resp_Body resp) = Inl err) \<or>
           ReadAll env (resp_Body resp) = Inr [] \<or>
           StatusCode resp \<noteq> 200 \<or>
           (\<exists>body err. ReadAll env (resp_Body resp) = Inr body \<and>
                         Unmarshal env body = Inl err)))) \<and>
    (client_Do env sent req = Inr resp \<and> ReadAll env (resp_Body resp) = Inr body \<and>
     body \<noteq> [] \<and> StatusCode resp = 200 \<and> Unmarshal env body = Inr respData \<longrightarrow>
       Authenticate env e sent code
         = (None,
            e\<lparr>AccessToken := access_token respData, RefreshToken := refresh_token respData\<rparr>,
            sent @ [req]))"
  by (auto simp: Authenticate_request [OF assms] split: sum.splits)

theorem Authenticate_fails_iff_witness:
  "Authenticate sampleEnv authedESI []
       ''good''
     = (None, sampleESI\<lparr>AccessToken := ''at1'', RefreshToken := ''rt1''\<rparr>,
        [tokenRequest ''good'']) \<and>
   fst (Authenticate sampleEnv sampleESI [] ''good'') = None \<and>
   fst (Authenticate sampleEnv sampleESI [] ''silent'') \<noteq> None \<and>
   fst (Authenticate sampleEnv sampleESI [] ''denied'') \<noteq> None \<and>
   fst (Authenticate sampleEnv sampleESI [] ''garbled'') \<noteq> None \<and>
   fst (Authenticate sampleEnv sampleESI [] ''reset'') \<noteq> None \<and>
   fst (Authenticate offlineEnv sampleESI [] ''good'') \<noteq> None"
proof -
    have req: "tokenRequest code =
           Header_add (Header_add (Header_add (Header_add
             \<lparr>Method = ''POST'', URL = TokenURL, req_Header = Map.empty,
              req_Body = Some (''code='' @ QueryEscape sampleEnv code
                               @ ''&grant_type=authorization_code'')\<rparr>
             ''Authorization'' (createAuthorizationHeader sampleEnv e))
             ''User-Agent'' (UserAgent e))
             ''Accept'' ''application/json'')
             ''Content-Type'' ''application/x-www-form-urlencoded''"
    if "ClientID e = ''id''" "ClientSecret e = ''secret''"
       "UserAgent e = ''github.com/Celeo/Goesi''" for code and e :: "string ESI"
    using that by (intro sample_tokenRequest) (simp_all add: sampleEnv_fields)
  have req_off: "tokenRequest code =
           Header_add (Header_add (Header_add (Header_add
             \<lparr>Method = ''POST'', URL = TokenURL, req_Header = Map.empty,
              req_Body = Some (''code='' @ QueryEscape offlineEnv code
                               @ ''&grant_type=authorization_code'')\<rparr>
             ''Authorization'' (createAuthorizationHeader offlineEnv sampleESI))
             ''User-Agent'' (UserAgent sampleESI))
             ''Accept'' ''application/json'')
             ''Content-Type'' ''application/x-www-form-urlencoded''" for code
    by (intro sample_tokenRequest) (simp_all add: sampleESI_fields offlineEnv_fields sampleEnv_fields)
  have new: "NewRequest_err offlineEnv ''POST'' TokenURL = None"
    by (simp add: offlineEnv_fields sample_requests)
  have body: "tokenBody \<noteq> []" "tokenBody \<noteq> ''<reset>''"
    by (simp_all add: tokenBody_def)
  have one: "Authenticate sampleEnv authedESI [] ''good''
     = (None, sampleESI\<lparr>AccessToken := ''at1'', RefreshToken := ''rt1''\<rparr>,
        [tokenRequest ''good''])"
    using Authenticate_fails_iff [OF sample_requests(5) req [of authedESI "''good''"],
            of "[]" "tokenResponse (Some ''code=good&grant_type=authorization_code'')"
               tokenBody tokens]
    by (simp add: sampleESI_fields sampleEnv_fields sampleDo_token tokenResponse_def body
          tokens_def sampleESI_def New_def authedESI_def)
  have two: "fst (Authenticate sampleEnv sampleESI [] ''good'') = None"
    using Authenticate_fails_iff [OF sample_requests(5) req [of sampleESI "''good''"],
            of "[]" "tokenResponse (Some ''code=good&grant_type=authorization_code'')"
               tokenBody tokens]
    by (simp add: sampleESI_fields sampleEnv_fields sampleDo_token tokenResponse_def body)
  have three: "fst (Authenticate sampleEnv sampleESI [] ''silent'') \<noteq> None"
    using Authenticate_fails_iff [OF sample_requests(5) req [of sampleESI "''silent''"], of "[]"]
    by (simp add: sampleESI_fields sampleEnv_fields sampleDo_token tokenResponse_def)
  have four: "fst (Authenticate sampleEnv sampleESI [] ''denied'') \<noteq> None"
    using Authenticate_fails_iff [OF sample_requests(5) req [of sampleESI "''denied''"], of "[]"]
    by (simp add: sampleESI_fields sampleEnv_fields sampleDo_token tokenResponse_def)
  have five: "fst (Authenticate sampleEnv sampleESI [] ''garbled'') \<noteq> None"
    using Authenticate_fails_iff [OF sample_requests(5) req [of sampleESI "''garbled''"], of "[]"]
    by (simp add: sampleESI_fields sampleEnv_fields sampleDo_token tokenResponse_def
          tokenBody_def)
  have six: "fst (Authenticate sampleEnv sampleESI [] ''reset'') \<noteq> None"
    using Authenticate_fails_iff [OF sample_requests(5) req [of sampleESI "''reset''"], of "[]"]
    by (simp add: sampleESI_fields sampleEnv_fields sampleDo_token tokenResponse_def)
  have seven: "fst (Authenticate offlineEnv sampleESI [] ''good'') \<noteq> None"
    using Authenticate_fails_iff [OF new req_off [of "''good''"], of "[]"]
    by (simp add: offlineEnv_fields)
  show ?thesis
    using one two three four five six seven by simp
qed

text \<open>
  Claim C10. Whenever \<open>Authenticate\<close> returns an error, on whichever path, the access
  token and the refresh token of the struct are what they were before; the whole struct
  is.
\<close>

theorem Authenticate_failure_keeps_tokens:
  assumes "fst (Authenticate env e sent code) \<noteq> None"
  shows "AccessToken (fst (snd (Authenticate env e sent code))) = AccessToken e \<and>
         RefreshToken (fst (snd (Authenticate env e sent code))) = RefreshToken e \<and>
         fst (snd (Authenticate env e sent code)) = e"
  using assms
  by (auto simp: Authenticate_def Let_def split: sum.splits if_splits)

theorem Authenticate_failure_keeps_tokens_witness:
  "AccessToken authedESI = ''old'' \<and> RefreshToken authedESI = ''older'' \<and>
   AccessToken (fst (snd (Authenticate sampleEnv authedESI [] ''silent''))) = ''old'' \<and>
   RefreshToken (fst (snd (Authenticate sampleEnv authedESI [] ''silent''))) = ''older'' \<and>
   AccessToken (fst (snd (Authenticate sampleEnv authedESI [] ''denied''))) = ''old'' \<and>
   RefreshToken (fst (snd (Authenticate sampleEnv authedESI [] ''denied''))) = ''older'' \<and>
   AccessToken (fst (snd (Authenticate sampleEnv authedESI [] ''garbled''))) = ''old'' \<and>
   RefreshToken (fst (snd (Authenticate sampleEnv authedESI [] ''garbled''))) = ''older'' \<and>
   AccessToken (fst (snd (Authenticate sampleEnv authedESI [] ''reset''))) = ''old'' \<and>
   RefreshToken (fst (snd (Authenticate sampleEnv authedESI [] ''reset''))) = ''older'' \<and>
   AccessToken (fst (snd (Authenticate offlineEnv authedESI [] ''good''))) = ''old'' \<and>
   RefreshToken (fst (snd (Authenticate offlineEnv authedESI [] ''good''))) = ''older''"
proof -
  have old: "AccessToken authedESI = ''old''" "RefreshToken authedESI = ''older''"
    by (simp_all add: authedESI_def)
  show ?thesis
    using Authenticate_failure_keeps_tokens [of sampleEnv authedESI "[]" "''silent''"]
          Authenticate_failure_keeps_tokens [of sampleEnv authedESI "[]" "''denied''"]
          Authenticate_failure_keeps_tokens [of sampleEnv authedESI "[]" "''garbled''"]
          Authenticate_failure_keeps_tokens [of sampleEnv authedESI "[]" "''reset''"]
          Authenticate_failure_keeps_tokens [of offlineEnv authedESI "[]" "''good''"]
    by (simp add: sample_Authenticate_fails offline_Authenticate_fails old)
qed

end
